theory Spec2Isabelle
  imports Main "HOL-Library.Word"
begin

section \<open>Schemas (app/api/v1/schemas.py)\<close>

text \<open>
  The pydantic models are records. Isabelle record fields are global constants, so the
  fields of each model carry a short prefix: \<open>t_\<close> for \<open>Topic\<close>, \<open>sr_\<close> for
  \<open>SearchRequest\<close>, \<open>dr_\<close> for \<open>DownloadRequest\<close>, \<open>er_\<close> for \<open>ErrorResponse\<close>.
  Python integers are \<open>int\<close>, \<open>bytes\<close> is a list of 8-bit words, \<open>Optional[T]\<close> is
  \<open>T option\<close>.
\<close>

type_synonym bytes = "8 word list"

record Topic =
  t_topicCode :: string
  t_topicTitle :: string
  t_component :: string
  t_topicStatus :: string
  t_solicitationTitle :: string
  t_topicId :: string
  t_programYear :: "int option"
  t_releaseNumber :: "string option"
  t_technologyArea :: "string option"
  t_keywords :: "string list option"

text \<open>
  A topic object as the upstream sends it (a JSON object read field by field): a key that
  is missing or null is \<open>None\<close>; \<open>releaseNumber\<close> is a string or a number.
\<close>

record raw_topic =
  rt_topicCode :: "string option"
  rt_topicTitle :: "string option"
  rt_component :: "string option"
  rt_topicStatus :: "string option"
  rt_solicitationTitle :: "string option"
  rt_topicId :: "string option"
  rt_programYear :: "int option"
  rt_releaseNumber :: "(string + int) option"
  rt_technologyArea :: "string option"
  rt_keywords :: "string list option"

record SearchRequest =
  sr_term :: "string option"
  sr_page :: int
  sr_page_size :: int
  sr_components :: "string list option"
  sr_program_years :: "int list option"

record DownloadRequest =
  dr_selected_topics :: "string list"
  dr_search_term :: "string option"
  dr_page :: int
  dr_page_size :: int

record ErrorResponse =
  er_detail :: string
  er_code :: string

section \<open>HTTP responses\<close>

text \<open>
  The body of the search endpoint after \<open>resp.json()\<close>: the keys \<open>data\<close> and
  \<open>total\<close>, each present or absent.
\<close>

record search_body =
  sb_data :: "raw_topic list option"
  sb_total :: "int option"

text \<open>
  An \<open>httpx.Response\<close>: the URL of its request, its status code, its body as text and
  as bytes, what \<open>resp.json()\<close> gives for the body of a search (\<open>None\<close> when the body
  does not parse as such a JSON object), and the \<open>str()\<close> of what \<open>resp.json()\<close> gives
  for any body (\<open>None\<close> when the body is not JSON).
\<close>

record response =
  resp_url :: string
  resp_status_code :: int
  resp_text :: string
  resp_content :: bytes
  resp_json :: "search_body option"
  resp_json_str :: "string option"

section \<open>Exceptions\<close>

text \<open>
  The classes of \<open>httpx.RequestError\<close> that a request can raise. The first four are the
  subclasses of \<open>httpx.TimeoutException\<close>, which is itself a subclass of
  \<open>httpx.RequestError\<close>; \<open>httpx.HTTPStatusError\<close> is not a \<open>RequestError\<close>.
\<close>

datatype httpx_class =
    ConnectTimeout | ReadTimeout | WriteTimeout | PoolTimeout
  | ConnectError | ReadError | WriteError | CloseError
  | LocalProtocolError | RemoteProtocolError | ProxyError | UnsupportedProtocol
  | DecodingError | TooManyRedirects

fun is_TimeoutException :: "httpx_class \<Rightarrow> bool" where
  "is_TimeoutException ConnectTimeout = True"
| "is_TimeoutException ReadTimeout = True"
| "is_TimeoutException WriteTimeout = True"
| "is_TimeoutException PoolTimeout = True"
| "is_TimeoutException _ = False"

text \<open>
  Exceptions as values. \<open>RequestError c s\<close> is an \<open>httpx.RequestError\<close> of class \<open>c\<close>
  whose \<open>str()\<close> is \<open>s\<close>; \<open>HTTPStatusError s r\<close> carries its own \<open>str()\<close> and its
  response; \<open>DoDSBIRAPIError m sc\<close> is the client's own exception with its message and
  optional \<open>status_code\<close>; \<open>ValidationError\<close> is pydantic's, \<open>KeyError\<close> a missing
  dictionary key, \<open>RuntimeError\<close> the one that the form-post application raises and
  \<open>OtherException\<close> any other exception, each with its \<open>str()\<close>.
\<close>

datatype exn =
    RequestError httpx_class string
  | HTTPStatusError string response
  | DoDSBIRAPIError string "int option"
  | ValidationError string
  | KeyError string
  | RuntimeError string
  | OtherException string

fun str_exn :: "exn \<Rightarrow> string" where
  "str_exn (RequestError c s) = s"
| "str_exn (HTTPStatusError s r) = s"
| "str_exn (DoDSBIRAPIError m sc) = m"
| "str_exn (ValidationError s) = s"
| "str_exn (KeyError s) = s"
| "str_exn (RuntimeError s) = s"
| "str_exn (OtherException s) = s"

datatype http_exception = HTTPException int ErrorResponse

section \<open>Strings\<close>

text \<open>\<open>str(n)\<close> for an integer: its decimal digits, with a minus sign when negative.\<close>

fun str_nat :: "nat \<Rightarrow> string" where
  "str_nat n = (if n < 10 then [''0123456789'' ! n]
                else str_nat (n div 10) @ [''0123456789'' ! (n mod 10)])"

declare str_nat.simps [simp del]

definition str_int :: "int \<Rightarrow> string" where
  "str_int i = (if i < 0 then ''-'' @ str_nat (nat (- i)) else str_nat (nat i))"

text \<open>\<open>sep.join(xs)\<close>.\<close>

fun join :: "string \<Rightarrow> string list \<Rightarrow> string" where
  "join sep [] = []"
| "join sep [x] = x"
| "join sep (x # y # ys) = x @ sep @ join sep (y # ys)"

definition newline :: string where
  "newline = [CHR 0x0A]"

section \<open>Schema validation\<close>

text \<open>
  \<open>SearchRequest(term=..., page=..., page_size=...)\<close>: the constructor checks the field
  constraints \<open>page: ge=0\<close> and \<open>page_size: ge=1, le=100\<close> and raises pydantic's
  \<open>ValidationError\<close> when one fails (its wording is abbreviated here).
\<close>

definition SearchRequest_init ::
  "string option \<Rightarrow> int \<Rightarrow> int \<Rightarrow> string list option \<Rightarrow> int list option \<Rightarrow> exn + SearchRequest" where
  "SearchRequest_init term_arg page page_size components program_years =
     (if page < 0 then
        Inl (ValidationError ''1 validation error for SearchRequest: page: Input should be greater than or equal to 0'')
      else if page_size < 1 then
        Inl (ValidationError ''1 validation error for SearchRequest: page_size: Input should be greater than or equal to 1'')
      else if 100 < page_size then
        Inl (ValidationError ''1 validation error for SearchRequest: page_size: Input should be less than or equal to 100'')
      else Inr \<lparr>sr_term = term_arg, sr_page = page, sr_page_size = page_size,
                sr_components = components, sr_program_years = program_years\<rparr>)"

text \<open>The field constraints of a \<open>SearchRequest\<close> that exists.\<close>

definition valid_SearchRequest :: "SearchRequest \<Rightarrow> bool" where
  "valid_SearchRequest r \<longleftrightarrow> 0 \<le> sr_page r \<and> 1 \<le> sr_page_size r \<and> sr_page_size r \<le> 100"

text \<open>
  The field constraints of a \<open>DownloadRequest\<close> that exists: \<open>selected_topics\<close> has
  \<open>min_length=1\<close>, \<open>page: ge=0\<close>, \<open>page_size: ge=1, le=100\<close>.
\<close>

definition valid_DownloadRequest :: "DownloadRequest \<Rightarrow> bool" where
  "valid_DownloadRequest r \<longleftrightarrow>
     1 \<le> length (dr_selected_topics r) \<and> 0 \<le> dr_page r \<and> 1 \<le> dr_page_size r \<and> dr_page_size r \<le> 100"

text \<open>
  \<open>Topic.convert_release_number_to_string\<close>, the \<open>before\<close> validator of
  \<open>releaseNumber\<close>.
\<close>

fun convert_release_number_to_string :: "(string + int) option \<Rightarrow> string option" where
  "convert_release_number_to_string None = None"
| "convert_release_number_to_string (Some (Inl s)) = Some s"
| "convert_release_number_to_string (Some (Inr n)) = Some (str_int n)"

text \<open>
  \<open>Topic.model_validate(topic)\<close>: the six fields declared \<open>Field(...)\<close> are required,
  the others default to \<open>None\<close> (\<open>keywords\<close> to the empty list). The fields that are
  present are taken to have the declared types.
\<close>

definition Topic_model_validate :: "raw_topic \<Rightarrow> exn + Topic" where
  "Topic_model_validate r =
     (case (rt_topicCode r, rt_topicTitle r, rt_component r, rt_topicStatus r,
            rt_solicitationTitle r, rt_topicId r) of
        (Some c, Some ti, Some co, Some st, Some so, Some i) \<Rightarrow>
          Inr \<lparr>t_topicCode = c, t_topicTitle = ti, t_component = co, t_topicStatus = st,
               t_solicitationTitle = so, t_topicId = i, t_programYear = rt_programYear r,
               t_releaseNumber = convert_release_number_to_string (rt_releaseNumber r),
               t_technologyArea = rt_technologyArea r,
               t_keywords = (case rt_keywords r of None \<Rightarrow> Some [] | Some k \<Rightarrow> Some k)\<rparr>
      | _ \<Rightarrow> Inl (ValidationError ''validation error for Topic: Field required''))"

text \<open>
  \<open>[Topic.model_validate(topic) for topic in topics_data]\<close>: the first entry that does
  not validate raises.
\<close>

fun validate_topics :: "raw_topic list \<Rightarrow> exn + Topic list" where
  "validate_topics [] = Inr []"
| "validate_topics (r # rs) =
     (case Topic_model_validate r of
        Inl e \<Rightarrow> Inl e
      | Inr t \<Rightarrow> (case validate_topics rs of Inl e \<Rightarrow> Inl e | Inr ts \<Rightarrow> Inr (t # ts)))"

section \<open>The upstream and the HTTP library\<close>

text \<open>What \<open>client.request(...)\<close> does: it raises, or it returns a response.\<close>

datatype transport = Raises exn | Responds response

text \<open>The dictionary \<open>search_payload\<close> that is sent as \<open>searchParam\<close>.\<close>

record search_payload =
  sp_searchText :: "string option"
  sp_components :: "string list option"
  sp_programYear :: "int option"
  sp_solicitationCycleNames :: "string list"
  sp_releaseNumbers :: "string list"
  sp_topicReleaseStatus :: "int list"
  sp_modernizationPriorities :: "string list"
  sp_sortBy :: string
  sp_technologyAreaIds :: "string list"
  sp_component :: "string option"
  sp_program :: "string option"

text \<open>
  Everything outside the repository that a request depends on:
  \<^item> \<open>quote_json_dumps\<close> is \<open>urllib.parse.quote(json.dumps(payload))\<close>, two library
    functions whose output is not modelled;
  \<^item> \<open>upstream\<close> is the remote server seen through \<open>httpx\<close>: given the URLs requested so
    far and the URL requested now, what the request does. Redirects are followed inside
    the library; the fixed request headers are not modelled.
  The calls made are recorded in a log, the list of the URLs requested, which every
  operation takes and returns.
\<close>

record env =
  quote_json_dumps :: "search_payload \<Rightarrow> string"
  upstream :: "string list \<Rightarrow> string \<Rightarrow> transport"

text \<open>
  \<open>Response.raise_for_status()\<close> of \<open>httpx\<close>: a response whose status is not 2xx raises
  \<open>HTTPStatusError\<close> (the library's message is abbreviated).
\<close>

definition raise_for_status :: "response \<Rightarrow> exn + response" where
  "raise_for_status resp =
     (if 200 \<le> resp_status_code resp \<and> resp_status_code resp \<le> 299 then Inr resp
      else Inl (HTTPStatusError
                  (''Error response '' @ str_int (resp_status_code resp) @ '' for url '' @ resp_url resp)
                  resp))"

section \<open>Settings (app/core/config.py)\<close>

definition DOD_SEARCH_API_URL :: string where
  "DOD_SEARCH_API_URL = ''https://www.dodsbirsttr.mil/api/topics/search''"

text \<open>\<open>settings.DOD_PDF_API_TEMPLATE.format(topic_uid=topic_id)\<close>.\<close>

definition DOD_PDF_API_TEMPLATE :: "string \<Rightarrow> string" where
  "DOD_PDF_API_TEMPLATE topic_uid = ''https://www.dodsbirsttr.mil/api/topics/'' @ topic_uid @ ''/pdf''"

section \<open>The client (app/core/clients/dod_sbir_client.py)\<close>

fun isinstance_TimeoutException :: "exn \<Rightarrow> bool" where
  "isinstance_TimeoutException (RequestError c s) = is_TimeoutException c"
| "isinstance_TimeoutException _ = False"

fun isinstance_RequestError :: "exn \<Rightarrow> bool" where
  "isinstance_RequestError (RequestError c s) = True"
| "isinstance_RequestError _ = False"

text \<open>
  The three \<open>except\<close> clauses of \<open>DoDSBIRClient._request\<close>, in their order; an exception
  that none of them matches propagates unchanged.
\<close>

definition request_except :: "string \<Rightarrow> exn \<Rightarrow> exn" where
  "request_except url e =
     (if isinstance_TimeoutException e then
        DoDSBIRAPIError (''Request to '' @ url @ '' timed out.'') None
      else if isinstance_RequestError e then
        DoDSBIRAPIError (''Network error requesting '' @ url @ '': '' @ str_exn e) None
      else (case e of
              HTTPStatusError s r \<Rightarrow>
                DoDSBIRAPIError (''API request to '' @ resp_url r @ '' failed with status ''
                                 @ str_int (resp_status_code r) @ ''. Response: ''
                                 @ take 200 (resp_text r) @ ''...'')
                  (Some (resp_status_code r))
            | _ \<Rightarrow> e))"

text \<open>\<open>DoDSBIRClient._request\<close> (always called with the method \<open>GET\<close>).\<close>

definition DoDSBIRClient_request ::
  "env \<Rightarrow> string list \<Rightarrow> string \<Rightarrow> (exn + response) \<times> string list" where
  "DoDSBIRClient_request E log url =
     (case (case upstream E log url of
              Raises e \<Rightarrow> Inl e
            | Responds resp \<Rightarrow> raise_for_status resp) of
        Inr resp \<Rightarrow> (Inr resp, log @ [url])
      | Inl e \<Rightarrow> (Inl (request_except url e), log @ [url]))"

text \<open>The \<open>search_payload\<close> dictionary that \<open>search_topics\<close> builds from the request.\<close>

definition search_payload_of :: "SearchRequest \<Rightarrow> search_payload" where
  "search_payload_of search_request =
     \<lparr>sp_searchText = sr_term search_request,
      sp_components = Some (case sr_components search_request of None \<Rightarrow> [] | Some cs \<Rightarrow> cs),
      sp_programYear = (case sr_program_years search_request of
                          Some (y # ys) \<Rightarrow> Some y | _ \<Rightarrow> None),
      sp_solicitationCycleNames = [''openTopics''],
      sp_releaseNumbers = [],
      sp_topicReleaseStatus = [591, 592],
      sp_modernizationPriorities = [],
      sp_sortBy = ''finalTopicCode,asc'',
      sp_technologyAreaIds = [],
      sp_component = None,
      sp_program = None\<rparr>"

text \<open>The \<open>full_url\<close> that \<open>search_topics\<close> requests.\<close>

definition full_url_of :: "env \<Rightarrow> SearchRequest \<Rightarrow> string" where
  "full_url_of E search_request =
     (let encoded_search_param = quote_json_dumps E (search_payload_of search_request)
      in DOD_SEARCH_API_URL @ ''?searchParam='' @ encoded_search_param
         @ ''&size='' @ str_int (sr_page_size search_request)
         @ ''&page='' @ str_int (sr_page search_request))"

text \<open>\<open>DoDSBIRClient.search_topics\<close>: the topics, the total and \<open>has_more\<close>.\<close>

definition search_topics ::
  "env \<Rightarrow> string list \<Rightarrow> SearchRequest \<Rightarrow> (exn + Topic list \<times> int \<times> bool) \<times> string list" where
  "search_topics E log search_request =
     (case DoDSBIRClient_request E log (full_url_of E search_request) of
        (Inl e, log') \<Rightarrow> (Inl e, log')
      | (Inr resp, log') \<Rightarrow>
          (case resp_json resp of
             None \<Rightarrow> (Inl (OtherException ''JSONDecodeError''), log')
           | Some result \<Rightarrow>
               (let topics_data = (case sb_data result of None \<Rightarrow> [] | Some d \<Rightarrow> d);
                    total_elements = (case sb_total result of None \<Rightarrow> 0 | Some n \<Rightarrow> n);
                    has_more = ((sr_page search_request + 1) * sr_page_size search_request
                                < total_elements)
                in case validate_topics topics_data of
                     Inl e \<Rightarrow> (Inl e, log')
                   | Inr topics \<Rightarrow> (Inr (topics, total_elements, has_more), log'))))"

text \<open>\<open>DoDSBIRClient.download_pdf_content\<close>: the bytes of the response.\<close>

definition download_pdf_content ::
  "env \<Rightarrow> string list \<Rightarrow> string \<Rightarrow> (exn + bytes) \<times> string list" where
  "download_pdf_content E log topic_id =
     (let pdf_url = DOD_PDF_API_TEMPLATE topic_id
      in case DoDSBIRClient_request E log pdf_url of
           (Inl e, log') \<Rightarrow> (Inl e, log')
         | (Inr resp, log') \<Rightarrow> (Inr (resp_content resp), log'))"

section \<open>The endpoints (app/api/v1/endpoints/topics.py)\<close>

record SearchResponse =
  rs_topics :: "Topic list"
  rs_total :: int
  rs_page :: int
  rs_page_size :: int
  rs_has_more :: bool

text \<open>
  What an endpoint returns. The body of a \<open>StreamingResponse\<close> is a byte string or a
  ZIP archive; an archive is the list of its entries in the order written, each a name
  with the bytes or the text given to \<open>zf.writestr\<close> (the compressed layout of the
  archive is not modelled). A \<open>StreamingResponse\<close> carries its body, its media type and
  its headers.
\<close>

datatype zdata = ZBytes bytes | ZText string

datatype body = Bytes bytes | ZipFile "(string \<times> zdata) list"

datatype http_response =
    StreamingResponse body string "(string \<times> string) list"
  | HTMLResponse string

text \<open>What is raised inside the \<open>try\<close> of an endpoint: an exception or an \<open>HTTPException\<close>.\<close>

datatype raised = Exn exn | Http http_exception

definition dquote :: string where
  "dquote = [CHR 0x22]"

text \<open>\<open>e.status_code if e.status_code else 502\<close>: \<open>None\<close> and \<open>0\<close> are falsy.\<close>

definition status_code_or_502 :: "int option \<Rightarrow> int" where
  "status_code_or_502 sc = (case sc of None \<Rightarrow> 502 | Some c \<Rightarrow> if c \<noteq> 0 then c else 502)"

text \<open>The \<open>except\<close> clauses of \<open>search_topics_endpoint\<close>.\<close>

definition search_except :: "exn \<Rightarrow> http_exception" where
  "search_except e =
     (case e of
        DoDSBIRAPIError m sc \<Rightarrow>
          HTTPException (status_code_or_502 sc)
            \<lparr>er_detail = str_exn e, er_code = ''DOD_API_ERROR''\<rparr>
      | _ \<Rightarrow>
          HTTPException 500
            \<lparr>er_detail = ''An unexpected error occurred: '' @ str_exn e,
             er_code = ''INTERNAL_ERROR''\<rparr>)"

definition search_topics_endpoint ::
  "env \<Rightarrow> string list \<Rightarrow> SearchRequest \<Rightarrow> (http_exception + SearchResponse) \<times> string list" where
  "search_topics_endpoint E log request =
     (case search_topics E log request of
        (Inr (topics, total', has_more), log') \<Rightarrow>
          (Inr \<lparr>rs_topics = topics, rs_total = total', rs_page = sr_page request,
                rs_page_size = sr_page_size request, rs_has_more = has_more\<rparr>, log')
      | (Inl e, log') \<Rightarrow> (Inl (search_except e), log'))"

text \<open>
  \<open>topic_map = {topic.topicCode: topic.topicId for topic in all_found_topics}\<close>: the
  entries are stored in the order of the list.
\<close>

definition topic_map_of :: "Topic list \<Rightarrow> (string \<rightharpoonup> string)" where
  "topic_map_of all_found_topics =
     foldl (\<lambda>m topic. m(t_topicCode topic \<mapsto> t_topicId topic)) Map.empty all_found_topics"

text \<open>
  The loop over \<open>request.selected_topics\<close> that fills \<open>topics_to_download\<close> and
  \<open>not_found_codes\<close>; \<open>if topic_id\<close> is false for a missing code and for an empty id.
\<close>

fun resolve_loop ::
  "(string \<rightharpoonup> string) \<Rightarrow> string list \<Rightarrow> (string \<times> string) list \<Rightarrow> string list
     \<Rightarrow> (string \<times> string) list \<times> string list" where
  "resolve_loop topic_map [] topics_to_download not_found_codes =
     (topics_to_download, not_found_codes)"
| "resolve_loop topic_map (code # rest) topics_to_download not_found_codes =
     (case topic_map code of
        Some topic_id \<Rightarrow>
          (if topic_id \<noteq> [] then
             resolve_loop topic_map rest (topics_to_download @ [(code, topic_id)]) not_found_codes
           else resolve_loop topic_map rest topics_to_download (not_found_codes @ [code]))
      | None \<Rightarrow> resolve_loop topic_map rest topics_to_download (not_found_codes @ [code]))"

text \<open>
  The body of the loop that fills the archive, as a function of what
  \<open>download_pdf_content\<close> did: a document is written as \<open><code>.pdf\<close>, a
  \<open>DoDSBIRAPIError\<close> and any other exception as the text entry \<open>ERROR_<code>.txt\<close>.
  (What the loop prints is not modelled.)
\<close>

fun zip_entry :: "string \<Rightarrow> exn + bytes \<Rightarrow> string \<times> zdata" where
  "zip_entry code (Inr pdf_content) = (code @ ''.pdf'', ZBytes pdf_content)"
| "zip_entry code (Inl (DoDSBIRAPIError m sc)) =
     (''ERROR_'' @ code @ ''.txt'',
      ZText (''Failed to download PDF for topic '' @ code @ ''.'' @ newline @ ''Error: '' @ m))"
| "zip_entry code (Inl e) =
     (''ERROR_'' @ code @ ''.txt'',
      ZText (''Unexpected error downloading PDF for topic '' @ code @ ''.'' @ newline
             @ ''Error: '' @ str_exn e))"

text \<open>The loop over \<open>topics_to_download\<close>: every pair is fetched and written, in order.\<close>

fun zip_loop ::
  "env \<Rightarrow> string list \<Rightarrow> (string \<times> string) list \<Rightarrow> (string \<times> zdata) list
     \<Rightarrow> (string \<times> zdata) list \<times> string list" where
  "zip_loop E log [] zf = (zf, log)"
| "zip_loop E log ((code, topic_id) # rest) zf =
     (case download_pdf_content E log topic_id of
        (r, log') \<Rightarrow> zip_loop E log' rest (zf @ [zip_entry code r]))"

text \<open>
  \<open>download_pdfs_endpoint\<close> from the line that builds \<open>topic_map\<close> to the end of the
  \<open>try\<close> block, given the topics that the search returned.
\<close>

definition download_found ::
  "env \<Rightarrow> string list \<Rightarrow> Topic list \<Rightarrow> string list \<Rightarrow> (raised + http_response) \<times> string list" where
  "download_found E log all_found_topics selected_topics =
     (let topic_map = topic_map_of all_found_topics;
          (topics_to_download, not_found_codes) = resolve_loop topic_map selected_topics [] []
      in if not_found_codes \<noteq> [] \<and> length topics_to_download = 0 then
           (Inl (Http (HTTPException 404
              \<lparr>er_detail = ''None of the requested topic codes found with the given search parameters: ''
                            @ join '', '' not_found_codes,
               er_code = ''TOPIC_NOT_FOUND''\<rparr>)), log)
         else if topics_to_download = [] then
           (Inl (Http (HTTPException 404
              \<lparr>er_detail = ''No valid topics found for download.'',
               er_code = ''NO_TOPICS_FOR_DOWNLOAD''\<rparr>)), log)
         else if length topics_to_download = 1 then
           (case topics_to_download of
              [] \<Rightarrow> (Inl (Exn (OtherException ''list index out of range'')), log)
            | (code, topic_id) # _ \<Rightarrow>
                (case download_pdf_content E log topic_id of
                   (Inl e, log') \<Rightarrow> (Inl (Exn e), log')
                 | (Inr pdf_content, log') \<Rightarrow>
                     (Inr (StreamingResponse (Bytes pdf_content) ''application/pdf''
                             [(''Content-Disposition'',
                               ''attachment; filename='' @ dquote @ code @ ''.pdf'' @ dquote)]),
                      log')))
         else
           (case zip_loop E log topics_to_download [] of
              (zf, log') \<Rightarrow>
                if map fst zf = [] then
                  (Inl (Http (HTTPException 500
                     \<lparr>er_detail = ''All selected PDF downloads failed. Check individual error logs if available.'',
                      er_code = ''ALL_DOWNLOADS_FAILED''\<rparr>)), log')
                else
                  (Inr (StreamingResponse (ZipFile zf) ''application/zip''
                          [(''Content-Disposition'',
                            ''attachment; filename='' @ dquote @ ''selected_pdfs.zip'' @ dquote)]),
                   log')))"

text \<open>The \<open>except\<close> clauses of \<open>download_pdfs_endpoint\<close>.\<close>

definition download_except :: "raised \<Rightarrow> http_exception" where
  "download_except r =
     (case r of
        Exn (DoDSBIRAPIError m sc) \<Rightarrow>
          HTTPException (status_code_or_502 sc)
            \<lparr>er_detail = m, er_code = ''DOD_API_DOWNLOAD_ERROR''\<rparr>
      | Http h \<Rightarrow> h
      | Exn e \<Rightarrow>
          HTTPException 500
            \<lparr>er_detail = ''An unexpected error occurred during download: '' @ str_exn e,
             er_code = ''DOWNLOAD_ERROR''\<rparr>)"

text \<open>
  The endpoint from the line that builds \<open>topic_map\<close> on, with its \<open>except\<close> clauses:
  what the caller gets once the search has returned \<open>all_found_topics\<close>.
\<close>

definition download_with_topics ::
  "env \<Rightarrow> string list \<Rightarrow> Topic list \<Rightarrow> string list
     \<Rightarrow> (http_exception + http_response) \<times> string list" where
  "download_with_topics E log all_found_topics selected_topics =
     (case download_found E log all_found_topics selected_topics of
        (Inl r, log') \<Rightarrow> (Inl (download_except r), log')
      | (Inr resp, log') \<Rightarrow> (Inr resp, log'))"

text \<open>
  The whole of \<open>download_pdfs_endpoint\<close>: the two \<open>SearchRequest\<close> objects are built, the
  second with \<open>page=0, page_size=1000\<close>, the search is made with the second, and the rest
  follows.
\<close>

definition download_try ::
  "env \<Rightarrow> string list \<Rightarrow> DownloadRequest \<Rightarrow> (raised + http_response) \<times> string list" where
  "download_try E log request =
     (case SearchRequest_init (dr_search_term request) (dr_page request) (dr_page_size request)
             None None of
        Inl e \<Rightarrow> (Inl (Exn e), log)
      | Inr search_req_for_ids \<Rightarrow>
          (case SearchRequest_init (dr_search_term request) 0 1000 None None of
             Inl e \<Rightarrow> (Inl (Exn e), log)
           | Inr search_request \<Rightarrow>
               (case search_topics E log search_request of
                  (Inl e, log') \<Rightarrow> (Inl (Exn e), log')
                | (Inr (all_found_topics, total', has_more), log') \<Rightarrow>
                    download_found E log' all_found_topics (dr_selected_topics request))))"

definition download_pdfs_endpoint ::
  "env \<Rightarrow> string list \<Rightarrow> DownloadRequest \<Rightarrow> (http_exception + http_response) \<times> string list" where
  "download_pdfs_endpoint E log request =
     (case download_try E log request of
        (Inl r, log') \<Rightarrow> (Inl (download_except r), log')
      | (Inr resp, log') \<Rightarrow> (Inr resp, log'))"

section \<open>The form-post application (main.py)\<close>












section \<open>The earlier form-post application (src/main.py)\<close>

text \<open>
  The functions of this file have the names of those of main.py; here they carry the
  suffix \<open>_src\<close>. \<open>SEARCH_API\<close> and \<open>PDF_API_TEMPLATE\<close> are the same in both files.
\<close>






section \<open>Notions used to state the properties\<close>

text \<open>
  The pairs that the resolution keeps: the requested codes, in order, that the table maps
  to a non-empty id.
\<close>

definition resolved_pairs :: "(string \<rightharpoonup> string) \<Rightarrow> string list \<Rightarrow> (string \<times> string) list" where
  "resolved_pairs topic_map codes =
     List.map_filter
       (\<lambda>code. case topic_map code of
                  None \<Rightarrow> None
                | Some topic_id \<Rightarrow> if topic_id \<noteq> [] then Some (code, topic_id) else None)
       codes"

text \<open>The requested codes, in order, that the resolution does not keep.\<close>

definition unresolved_codes :: "(string \<rightharpoonup> string) \<Rightarrow> string list \<Rightarrow> string list" where
  "unresolved_codes topic_map codes =
     filter (\<lambda>code. case topic_map code of None \<Rightarrow> True | Some topic_id \<Rightarrow> topic_id = []) codes"

text \<open>
  The outcomes of fetching the documents of a list of topic ids one after the other, and
  the log after the last fetch.
\<close>

fun fetch_all :: "env \<Rightarrow> string list \<Rightarrow> string list \<Rightarrow> (exn + bytes) list \<times> string list" where
  "fetch_all E log [] = ([], log)"
| "fetch_all E log (topic_id # rest) =
     (case download_pdf_content E log topic_id of
        (r, log') \<Rightarrow> (case fetch_all E log' rest of (rs, log'') \<Rightarrow> (r # rs, log'')))"



definition content_disposition :: "string \<Rightarrow> (string \<times> string) list" where
  "content_disposition filename =
     [(''Content-Disposition'', ''attachment; filename='' @ dquote @ filename @ dquote)]"

definition is_2xx :: "response \<Rightarrow> bool" where
  "is_2xx r \<longleftrightarrow> 200 \<le> resp_status_code r \<and> resp_status_code r \<le> 299"


section \<open>Example inputs\<close>

definition example_topic :: "string \<Rightarrow> string \<Rightarrow> Topic" where
  "example_topic code topic_id =
     \<lparr>t_topicCode = code, t_topicTitle = ''Title'', t_component = ''ARMY'',
      t_topicStatus = ''Open'', t_solicitationTitle = ''DoD SBIR'', t_topicId = topic_id,
      t_programYear = None, t_releaseNumber = None, t_technologyArea = None,
      t_keywords = Some []\<rparr>"

definition example_pdf :: "string \<Rightarrow> bytes \<Rightarrow> response" where
  "example_pdf url b =
     \<lparr>resp_url = url, resp_status_code = 200, resp_text = [], resp_content = b,
      resp_json = None, resp_json_str = None\<rparr>"

definition timeout_env :: env where
  "timeout_env =
     \<lparr>quote_json_dumps = (\<lambda>payload. ''%7B%7D''),
      upstream = (\<lambda>log url. Raises (RequestError ReadTimeout ''timed out''))\<rparr>"

definition partial_env :: env where
  "partial_env =
     \<lparr>quote_json_dumps = (\<lambda>payload. ''%7B%7D''),
      upstream = (\<lambda>log url.
         if url = DOD_PDF_API_TEMPLATE ''2'' then Raises (RequestError ReadTimeout ''timed out'')
         else Responds (example_pdf url [0x25, 0x50, 0x44, 0x46]))\<rparr>"

definition example_raw_topic :: "string \<Rightarrow> string option \<Rightarrow> raw_topic" where
  "example_raw_topic code topic_id =
     \<lparr>rt_topicCode = Some code, rt_topicTitle = Some ''Title'', rt_component = Some ''ARMY'',
      rt_topicStatus = Some ''Open'', rt_solicitationTitle = Some ''DoD SBIR'',
      rt_topicId = topic_id, rt_programYear = None, rt_releaseNumber = None,
      rt_technologyArea = None, rt_keywords = None\<rparr>"

definition example_request :: SearchRequest where
  "example_request =
     \<lparr>sr_term = Some ''radar'', sr_page = 0, sr_page_size = 10, sr_components = None,
      sr_program_years = None\<rparr>"

definition example_json :: "search_body \<Rightarrow> string \<Rightarrow> response" where
  "example_json b url =
     \<lparr>resp_url = url, resp_status_code = 200, resp_text = [], resp_content = [],
      resp_json = Some b, resp_json_str = Some ''{}''\<rparr>"

definition unreachable_env :: env where
  "unreachable_env =
     \<lparr>quote_json_dumps = (\<lambda>payload. ''%7B%7D''),
      upstream = (\<lambda>log url. Raises (RequestError ConnectError ''All connection attempts failed''))\<rparr>"

definition unavailable :: "string \<Rightarrow> response" where
  "unavailable url =
     \<lparr>resp_url = url, resp_status_code = 503, resp_text = ''Service Unavailable'',
      resp_content = [], resp_json = None, resp_json_str = None\<rparr>"

definition unavailable_env :: env where
  "unavailable_env =
     \<lparr>quote_json_dumps = (\<lambda>payload. ''%7B%7D''),
      upstream = (\<lambda>log url.
         Responds (unavailable url))\<rparr>"

definition short_total_env :: env where
  "short_total_env =
     \<lparr>quote_json_dumps = (\<lambda>payload. ''%7B%7D''),
      upstream = (\<lambda>log url.
         Responds (example_json
                     \<lparr>sb_data = Some [example_raw_topic ''A'' (Some ''1'')], sb_total = Some 0\<rparr>
                     url))\<rparr>"


definition listing_env :: env where
  "listing_env =
     \<lparr>quote_json_dumps = (\<lambda>payload. ''%7B%7D''),
      upstream = (\<lambda>log url.
         Responds (example_json
                     \<lparr>sb_data = Some [example_raw_topic ''A'' (Some ''1'')], sb_total = Some 25\<rparr>
                     url))\<rparr>"



section \<open>The loops in closed form\<close>

lemma resolve_loop_eq:
  "resolve_loop m cs dl nf = (dl @ resolved_pairs m cs, nf @ unresolved_codes m cs)"
  by (induction cs arbitrary: dl nf)
     (simp_all add: resolved_pairs_def unresolved_codes_def split: option.splits)

lemma download_pdf_content_log:
  "snd (download_pdf_content E log i) = log @ [DOD_PDF_API_TEMPLATE i]"
  by (simp add: download_pdf_content_def DoDSBIRClient_request_def Let_def
           split: prod.splits sum.splits transport.splits)

lemma fetch_all_Cons:
  "fetch_all E log (i # ids) =
     (fst (download_pdf_content E log i) # fst (fetch_all E (snd (download_pdf_content E log i)) ids),
      snd (fetch_all E (snd (download_pdf_content E log i)) ids))"
  by (simp split: prod.splits)

lemma fetch_all_length: "length (fst (fetch_all E log ids)) = length ids"
  by (induction ids arbitrary: log) (simp_all add: fetch_all_Cons del: fetch_all.simps(2))

lemma fetch_all_log: "snd (fetch_all E log ids) = log @ map DOD_PDF_API_TEMPLATE ids"
  by (induction ids arbitrary: log)
     (simp_all add: fetch_all_Cons download_pdf_content_log del: fetch_all.simps(2))

lemma zip_loop_Cons:
  "zip_loop E log ((code, topic_id) # rest) zf =
     zip_loop E (snd (download_pdf_content E log topic_id)) rest
       (zf @ [zip_entry code (fst (download_pdf_content E log topic_id))])"
  by (simp split: prod.splits)

lemma zip_loop_eq:
  "zip_loop E log ps zf =
     (zf @ map2 zip_entry (map fst ps) (fst (fetch_all E log (map snd ps))),
      snd (fetch_all E log (map snd ps)))"
  by (induction ps arbitrary: log zf)
     (auto simp: zip_loop_Cons fetch_all_Cons simp del: zip_loop.simps(2) fetch_all.simps(2))

lemma resolved_pairs_Nil_iff:
  "resolved_pairs m cs = [] \<longleftrightarrow> (\<forall>c\<in>set cs. m c = None \<or> m c = Some [])"
  by (induction cs) (auto simp: resolved_pairs_def split: option.splits)

lemma unresolved_all:
  "\<forall>c\<in>set cs. m c = None \<Longrightarrow> unresolved_codes m cs = cs"
  by (induction cs) (auto simp: unresolved_codes_def)

lemma resolved_pairs_idem:
  "resolved_pairs m (map fst (resolved_pairs m cs)) = resolved_pairs m cs"
  by (induction cs) (auto simp: resolved_pairs_def split: option.splits)

lemma unresolved_of_resolved:
  "unresolved_codes m (map fst (resolved_pairs m cs)) = []"
  by (induction cs) (auto simp: resolved_pairs_def unresolved_codes_def split: option.splits)

lemma download_found_eq:
  "download_found E log all_found_topics selected_topics =
     (let ps = resolved_pairs (topic_map_of all_found_topics) selected_topics;
          nf = unresolved_codes (topic_map_of all_found_topics) selected_topics
      in if ps = [] then
           (if nf \<noteq> [] then
              (Inl (Http (HTTPException 404
                 \<lparr>er_detail = ''None of the requested topic codes found with the given search parameters: ''
                               @ join '', '' nf,
                  er_code = ''TOPIC_NOT_FOUND''\<rparr>)), log)
            else
              (Inl (Http (HTTPException 404
                 \<lparr>er_detail = ''No valid topics found for download.'',
                  er_code = ''NO_TOPICS_FOR_DOWNLOAD''\<rparr>)), log))
         else if length ps = 1 then
           (case download_pdf_content E log (snd (hd ps)) of
              (Inl e, log') \<Rightarrow> (Inl (Exn e), log')
            | (Inr pdf_content, log') \<Rightarrow>
                (Inr (StreamingResponse (Bytes pdf_content) ''application/pdf''
                        (content_disposition (fst (hd ps) @ ''.pdf''))), log'))
         else
           (Inr (StreamingResponse
                   (ZipFile (map2 zip_entry (map fst ps) (fst (fetch_all E log (map snd ps)))))
                   ''application/zip'' (content_disposition ''selected_pdfs.zip'')),
            log @ map DOD_PDF_API_TEMPLATE (map snd ps)))"
proof -
  let ?ps = "resolved_pairs (topic_map_of all_found_topics) selected_topics"
  show ?thesis
  proof (cases ?ps)
    case Nil
    then show ?thesis
      by (simp add: download_found_def resolve_loop_eq Let_def)
  next
    case (Cons p rest)
    obtain code topic_id where p: "p = (code, topic_id)" by (cases p)
    have len: "length (fst (fetch_all E log (map snd ?ps))) = length ?ps"
      by (simp add: fetch_all_length)
    show ?thesis
    proof (cases rest)
      case Nil
      with Cons p show ?thesis
        by (simp add: download_found_def resolve_loop_eq Let_def content_disposition_def
                 split: prod.splits sum.splits)
    next
      case (Cons q rest')
      with \<open>?ps = p # rest\<close> have two: "length ?ps \<noteq> 1" "?ps \<noteq> []" by simp_all
      have ne: "map2 zip_entry (map fst ?ps) (fst (fetch_all E log (map snd ?ps))) \<noteq> []"
        using len two by (cases ?ps; cases "fst (fetch_all E log (map snd ?ps))") simp_all
      show ?thesis
        using two ne
        by (simp add: download_found_def resolve_loop_eq Let_def zip_loop_eq fetch_all_log
                      content_disposition_def)
    qed
  qed
qed

lemma download_with_topics_eq:
  "download_with_topics E log ts sel =
     (case download_found E log ts sel of
        (Inl r, log') \<Rightarrow> (Inl (download_except r), log')
      | (Inr resp, log') \<Rightarrow> (Inr resp, log'))"
  by (simp add: download_with_topics_def)

section \<open>C1: a batch whose fetches all fail\<close>

text \<open>
  C1 says that a multi-item batch in which every fetch fails ends in the fatal
  \<open>ALL_DOWNLOADS_FAILED\<close> error. The endpoint tests \<open>zf.namelist()\<close> for emptiness, but
  the loop has written an \<open>ERROR_<code>.txt\<close> entry for every failure, so the list is
  never empty: with two resolved topics whose fetches both time out, the endpoint returns
  an archive that holds the two placeholders and nothing else.
\<close>

theorem all_failed_batch_returns_placeholder_archive:
  "download_with_topics timeout_env [] [example_topic ''A'' ''1'', example_topic ''B'' ''2'']
       [''A'', ''B''] =
     (Inr (StreamingResponse
             (ZipFile
                [(''ERROR_A.txt'',
                  ZText (''Failed to download PDF for topic A.'' @ newline
                         @ ''Error: Request to https://www.dodsbirsttr.mil/api/topics/1/pdf timed out.'')),
                 (''ERROR_B.txt'',
                  ZText (''Failed to download PDF for topic B.'' @ newline
                         @ ''Error: Request to https://www.dodsbirsttr.mil/api/topics/2/pdf timed out.''))])
             ''application/zip'' (content_disposition ''selected_pdfs.zip'')),
      [''https://www.dodsbirsttr.mil/api/topics/1/pdf'',
       ''https://www.dodsbirsttr.mil/api/topics/2/pdf''])"
  by (simp add: download_with_topics_def download_found_def topic_map_of_def example_topic_def
                timeout_env_def download_pdf_content_def DoDSBIRClient_request_def
                request_except_def DOD_PDF_API_TEMPLATE_def content_disposition_def Let_def)

section \<open>C2: the search that builds the lookup table\<close>

text \<open>
  Whatever the request, \<open>download_pdfs_endpoint\<close> ends in the error 500
  \<open>DOWNLOAD_ERROR\<close> without a single request to the upstream: \<open>page_size=1000\<close> is
  outside the bound \<open>le=100\<close> of \<open>SearchRequest\<close>, the constructor raises, and the last
  \<open>except\<close> clause turns the exception into the error.
\<close>

lemma download_pdfs_endpoint_never_searches:
  "\<exists>d. download_pdfs_endpoint E log request =
         (Inl (HTTPException 500 \<lparr>er_detail = d, er_code = ''DOWNLOAD_ERROR''\<rparr>), log)"
  by (simp add: download_pdfs_endpoint_def download_try_def SearchRequest_init_def
                download_except_def)

text \<open>
  C2 says that the search with page 0 and page size 1000 is a valid \<open>SearchRequest\<close> and
  that the lookup succeeds without a validation error. At the request for the one code
  \<open>A254-001\<close>, found with the term \<open>radar\<close> on page 0 with page size 10, the endpoint
  returns the error 500 \<open>DOWNLOAD_ERROR\<close> that carries the validation error, and the log
  of requests is unchanged: no search is made.
\<close>

theorem lookup_search_fails_validation:
  "download_pdfs_endpoint E log
       \<lparr>dr_selected_topics = [''A254-001''], dr_search_term = Some ''radar'',
        dr_page = 0, dr_page_size = 10\<rparr> =
     (Inl (HTTPException 500
            \<lparr>er_detail = ''An unexpected error occurred during download: 1 validation error for SearchRequest: page_size: Input should be less than or equal to 100'',
             er_code = ''DOWNLOAD_ERROR''\<rparr>), log)"
  by (simp add: download_pdfs_endpoint_def download_try_def SearchRequest_init_def
                download_except_def)

section \<open>Auxiliary facts\<close>

lemma download_except_code:
  "download_except (Exn e) = HTTPException s er \<Longrightarrow>
     er_code er = ''DOD_API_DOWNLOAD_ERROR'' \<or> er_code er = ''DOWNLOAD_ERROR''"
  by (cases e) (auto simp: download_except_def)

lemma topic_map_example2:
  "topic_map_of [example_topic ''A'' ''1'', example_topic ''B'' ''2''] =
     [''A'' \<mapsto> ''1'', ''B'' \<mapsto> ''2'']"
  by (simp add: topic_map_of_def example_topic_def)






lemma foldl_topic_map_other:
  "\<forall>t\<in>set ts. t_topicCode t \<noteq> c \<Longrightarrow>
     foldl (\<lambda>m topic. m(t_topicCode topic \<mapsto> t_topicId topic)) m ts c = m c"
  by (induction ts arbitrary: m) auto

lemma topic_map_of_last:
  assumes "all_found_topics = before @ topic # after"
    and "\<forall>t\<in>set after. t_topicCode t \<noteq> t_topicCode topic"
  shows "topic_map_of all_found_topics (t_topicCode topic) = Some (t_topicId topic)"
  using assms by (simp add: topic_map_of_def foldl_topic_map_other)

lemma resolved_pairs_in:
  "(c, i) \<in> set (resolved_pairs m cs) \<Longrightarrow> m c = Some i \<and> i \<noteq> [] \<and> c \<in> set cs"
  by (induction cs) (auto simp: resolved_pairs_def split: option.splits if_splits)

lemma validate_topics_length: "validate_topics ds = Inr ts \<Longrightarrow> length ts = length ds"
  by (induction ds arbitrary: ts) (auto split: sum.splits)


lemma request_Inr:
  "DoDSBIRClient_request E log url = (Inr r, log') \<Longrightarrow>
     upstream E log url = Responds r \<and> is_2xx r \<and> log' = log @ [url]"
  by (auto simp: DoDSBIRClient_request_def raise_for_status_def is_2xx_def
           split: transport.splits sum.splits if_splits)

lemma timeout_is_request_error:
  "isinstance_TimeoutException e \<Longrightarrow> isinstance_RequestError e"
  by (cases e) simp_all

lemma validate_example_raw_topic:
  "Topic_model_validate (example_raw_topic code (Some topic_id)) = Inr (example_topic code topic_id)"
  by (simp add: Topic_model_validate_def example_raw_topic_def example_topic_def)




lemma not_2xx_unavailable: "\<not> is_2xx (unavailable url)"
  by (simp add: is_2xx_def unavailable_def)

section \<open>C3: the resolution policy\<close>

text \<open>
  C3. Take the endpoint from the line that builds the lookup table, for a request with at
  least one code (\<open>selected_topics\<close> has \<open>min_length=1\<close>).
  \<^item> If no requested code is a key of the table, the result is the error 404
    \<open>TOPIC_NOT_FOUND\<close> that lists the codes, and the log of requests is unchanged:
    nothing is fetched.
  \<^item> If at least one requested code resolves (the table maps it to a non-empty id), the
    loop keeps exactly the resolved pairs, there is at least one, the result is the one
    that the resolved codes alone would give, the requests made are the document requests
    of the resolved pairs in order, and whatever error the operation may still end in is
    neither \<open>TOPIC_NOT_FOUND\<close> nor \<open>NO_TOPICS_FOR_DOWNLOAD\<close>: partial resolution
    raises no error.
\<close>

theorem resolution_policy:
  assumes nonempty: "selected_topics \<noteq> []"
  shows "((\<forall>code\<in>set selected_topics. topic_map_of all_found_topics code = None) \<longrightarrow>
            download_with_topics E log all_found_topics selected_topics =
              (Inl (HTTPException 404
                 \<lparr>er_detail = ''None of the requested topic codes found with the given search parameters: ''
                               @ join '', '' selected_topics,
                  er_code = ''TOPIC_NOT_FOUND''\<rparr>), log))
       \<and> ((\<exists>code\<in>set selected_topics. \<exists>topic_id.
              topic_map_of all_found_topics code = Some topic_id \<and> topic_id \<noteq> []) \<longrightarrow>
            resolve_loop (topic_map_of all_found_topics) selected_topics [] [] =
              (resolved_pairs (topic_map_of all_found_topics) selected_topics,
               unresolved_codes (topic_map_of all_found_topics) selected_topics)
            \<and> resolved_pairs (topic_map_of all_found_topics) selected_topics \<noteq> []
            \<and> download_with_topics E log all_found_topics selected_topics =
                download_with_topics E log all_found_topics
                  (map fst (resolved_pairs (topic_map_of all_found_topics) selected_topics))
            \<and> snd (download_with_topics E log all_found_topics selected_topics) =
                log @ map (DOD_PDF_API_TEMPLATE \<circ> snd)
                        (resolved_pairs (topic_map_of all_found_topics) selected_topics)
            \<and> (\<forall>s er. fst (download_with_topics E log all_found_topics selected_topics) =
                         Inl (HTTPException s er) \<longrightarrow>
                       er_code er \<noteq> ''TOPIC_NOT_FOUND'' \<and> er_code er \<noteq> ''NO_TOPICS_FOR_DOWNLOAD''))"
proof (intro conjI impI)
  let ?m = "topic_map_of all_found_topics"
  assume none: "\<forall>code\<in>set selected_topics. ?m code = None"
  then have r: "resolved_pairs ?m selected_topics = []"
    by (simp add: resolved_pairs_Nil_iff)
  from none have u: "unresolved_codes ?m selected_topics = selected_topics"
    by (rule unresolved_all)
  show "download_with_topics E log all_found_topics selected_topics =
          (Inl (HTTPException 404
             \<lparr>er_detail = ''None of the requested topic codes found with the given search parameters: ''
                           @ join '', '' selected_topics,
              er_code = ''TOPIC_NOT_FOUND''\<rparr>), log)"
    using nonempty r u
    by (simp add: download_with_topics_eq download_found_eq download_except_def)
next
  let ?m = "topic_map_of all_found_topics"
  let ?ps = "resolved_pairs ?m selected_topics"
  assume some: "\<exists>code\<in>set selected_topics. \<exists>topic_id. ?m code = Some topic_id \<and> topic_id \<noteq> []"
  show "resolve_loop ?m selected_topics [] [] = (?ps, unresolved_codes ?m selected_topics)"
    by (simp add: resolve_loop_eq)
  from some show ne: "?ps \<noteq> []"
    by (auto simp: resolved_pairs_Nil_iff)
  show "download_with_topics E log all_found_topics selected_topics =
          download_with_topics E log all_found_topics (map fst ?ps)"
    using ne
    by (simp add: download_with_topics_eq download_found_eq resolved_pairs_idem Let_def)
  show "snd (download_with_topics E log all_found_topics selected_topics) =
          log @ map (DOD_PDF_API_TEMPLATE \<circ> snd) ?ps"
  proof (cases "length ?ps = 1")
    case True
    then obtain p where p: "?ps = [p]"
      by (cases ?ps) simp_all
    have "snd (download_pdf_content E log (snd p)) = log @ [DOD_PDF_API_TEMPLATE (snd p)]"
      by (rule download_pdf_content_log)
    then show ?thesis using p
      by (auto simp: download_with_topics_eq download_found_eq Let_def
               split: prod.splits sum.splits)
  next
    case False
    then show ?thesis using ne
      by (simp add: download_with_topics_eq download_found_eq Let_def)
  qed
  show "\<forall>s er. fst (download_with_topics E log all_found_topics selected_topics) =
                  Inl (HTTPException s er) \<longrightarrow>
                er_code er \<noteq> ''TOPIC_NOT_FOUND'' \<and> er_code er \<noteq> ''NO_TOPICS_FOR_DOWNLOAD''"
  proof (intro allI impI)
    fix s er
    assume f: "fst (download_with_topics E log all_found_topics selected_topics) =
                 Inl (HTTPException s er)"
    show "er_code er \<noteq> ''TOPIC_NOT_FOUND'' \<and> er_code er \<noteq> ''NO_TOPICS_FOR_DOWNLOAD''"
    proof (cases "length ?ps = 1")
      case True
      with f ne obtain e where "download_except (Exn e) = HTTPException s er"
        by (auto simp: download_with_topics_eq download_found_eq Let_def
                 split: prod.splits sum.splits)
      from download_except_code [OF this] show ?thesis by auto
    next
      case False
      with f ne show ?thesis
        by (simp add: download_with_topics_eq download_found_eq Let_def)
    qed
  qed
qed

theorem resolution_policy_witness:
  "[''X''] \<noteq> []
   \<and> topic_map_of [example_topic ''A'' ''1''] ''X'' = None
   \<and> download_with_topics timeout_env [] [example_topic ''A'' ''1''] [''X''] =
       (Inl (HTTPException 404
          \<lparr>er_detail = ''None of the requested topic codes found with the given search parameters: X'',
           er_code = ''TOPIC_NOT_FOUND''\<rparr>), [])
   \<and> (\<exists>code\<in>set [''A'', ''X'', ''B'']. \<exists>topic_id.
         topic_map_of [example_topic ''A'' ''1'', example_topic ''B'' ''2''] code = Some topic_id
         \<and> topic_id \<noteq> [])
   \<and> resolve_loop (topic_map_of [example_topic ''A'' ''1'', example_topic ''B'' ''2''])
         [''A'', ''X'', ''B''] [] [] = ([(''A'', ''1''), (''B'', ''2'')], [''X''])
   \<and> snd (download_with_topics partial_env []
             [example_topic ''A'' ''1'', example_topic ''B'' ''2''] [''A'', ''X'', ''B'']) =
       [DOD_PDF_API_TEMPLATE ''1'', DOD_PDF_API_TEMPLATE ''2'']"
proof -
  have n1: "[''X''] \<noteq> ([] :: string list)" by simp
  have h1: "\<forall>code\<in>set [''X'']. topic_map_of [example_topic ''A'' ''1''] code = None"
    by (simp add: topic_map_of_def example_topic_def)
  have n2: "[''A'', ''X'', ''B''] \<noteq> ([] :: string list)" by simp
  have h2: "\<exists>code\<in>set [''A'', ''X'', ''B'']. \<exists>topic_id.
              topic_map_of [example_topic ''A'' ''1'', example_topic ''B'' ''2''] code = Some topic_id
              \<and> topic_id \<noteq> []"
    by (simp add: topic_map_example2)
  have r: "resolved_pairs (topic_map_of [example_topic ''A'' ''1'', example_topic ''B'' ''2''])
             [''A'', ''X'', ''B''] = [(''A'', ''1''), (''B'', ''2'')]"
    by (simp add: topic_map_example2 resolved_pairs_def)
  have u: "unresolved_codes (topic_map_of [example_topic ''A'' ''1'', example_topic ''B'' ''2''])
             [''A'', ''X'', ''B''] = [''X'']"
    by (simp add: topic_map_example2 unresolved_codes_def)
  from resolution_policy [OF n1, of "[example_topic ''A'' ''1'']" timeout_env "[]"] h1
  have c1: "download_with_topics timeout_env [] [example_topic ''A'' ''1''] [''X''] =
       (Inl (HTTPException 404
          \<lparr>er_detail = ''None of the requested topic codes found with the given search parameters: X'',
           er_code = ''TOPIC_NOT_FOUND''\<rparr>), [])"
    by simp
  note rp = resolution_policy [OF n2, of "[example_topic ''A'' ''1'', example_topic ''B'' ''2'']"
                                  partial_env "[]", THEN conjunct2, THEN mp, OF h2]
  from rp [THEN conjunct1]
  have c2: "resolve_loop (topic_map_of [example_topic ''A'' ''1'', example_topic ''B'' ''2''])
              [''A'', ''X'', ''B''] [] [] = ([(''A'', ''1''), (''B'', ''2'')], [''X''])"
    by (simp add: r u del: resolve_loop.simps)
  from rp [THEN conjunct2, THEN conjunct2, THEN conjunct2, THEN conjunct1]
  have c3: "snd (download_with_topics partial_env []
             [example_topic ''A'' ''1'', example_topic ''B'' ''2''] [''A'', ''X'', ''B'']) =
       [DOD_PDF_API_TEMPLATE ''1'', DOD_PDF_API_TEMPLATE ''2'']"
    by (simp add: r)
  from h1 have h1': "topic_map_of [example_topic ''A'' ''1''] ''X'' = None" by simp
  from n1 h1' c1 h2 c2 c3 show ?thesis by blast
qed

section \<open>C4: one failure among three\<close>



section \<open>C6: a single resolved pair\<close>



section \<open>C5: classification of gateway failures\<close>

text \<open>
  C5. \<open>DoDSBIRClient._request\<close> classifies a failed call in the order of its \<open>except\<close>
  clauses. A timeout is also a \<open>RequestError\<close>, and it is the first clause that takes
  it: the error says that the request timed out and has no status code. Any other
  \<open>RequestError\<close> becomes a network error, again without a status code. A response
  that is not 2xx becomes an error that carries the status code of the response and the
  first 200 characters of its text. All three are the one exception \<open>DoDSBIRAPIError\<close>
  with an optional status code. The endpoints answer with that status code when it is
  there (an HTTP status code is never 0, which Python would read as absent) and with 502
  when it is not; for the search endpoint this is also stated from the upstream's answer
  to the public error.
\<close>

theorem gateway_failure_classification:
  "(isinstance_TimeoutException e \<longrightarrow>
      isinstance_RequestError e
      \<and> request_except url e = DoDSBIRAPIError (''Request to '' @ url @ '' timed out.'') None)
   \<and> (upstream E log url = Raises (RequestError c s) \<and> is_TimeoutException c \<longrightarrow>
      DoDSBIRClient_request E log url =
        (Inl (DoDSBIRAPIError (''Request to '' @ url @ '' timed out.'') None), log @ [url]))
   \<and> (upstream E log url = Raises (RequestError c s) \<and> \<not> is_TimeoutException c \<longrightarrow>
      DoDSBIRClient_request E log url =
        (Inl (DoDSBIRAPIError (''Network error requesting '' @ url @ '': '' @ s) None),
         log @ [url]))
   \<and> (upstream E log url = Responds r \<and> \<not> is_2xx r \<longrightarrow>
      DoDSBIRClient_request E log url =
        (Inl (DoDSBIRAPIError
                (''API request to '' @ resp_url r @ '' failed with status ''
                 @ str_int (resp_status_code r) @ ''. Response: '' @ take 200 (resp_text r)
                 @ ''...'')
                (Some (resp_status_code r))), log @ [url]))
   \<and> search_except (DoDSBIRAPIError m None) =
       HTTPException 502 \<lparr>er_detail = m, er_code = ''DOD_API_ERROR''\<rparr>
   \<and> (status \<noteq> 0 \<longrightarrow>
       search_except (DoDSBIRAPIError m (Some status)) =
         HTTPException status \<lparr>er_detail = m, er_code = ''DOD_API_ERROR''\<rparr>)
   \<and> download_except (Exn (DoDSBIRAPIError m None)) =
       HTTPException 502 \<lparr>er_detail = m, er_code = ''DOD_API_DOWNLOAD_ERROR''\<rparr>
   \<and> (status \<noteq> 0 \<longrightarrow>
       download_except (Exn (DoDSBIRAPIError m (Some status))) =
         HTTPException status \<lparr>er_detail = m, er_code = ''DOD_API_DOWNLOAD_ERROR''\<rparr>)
   \<and> (upstream E log (full_url_of E request) = Responds r \<and> \<not> is_2xx r
        \<and> 100 \<le> resp_status_code r \<longrightarrow>
       (\<exists>d. search_topics_endpoint E log request =
              (Inl (HTTPException (resp_status_code r) \<lparr>er_detail = d, er_code = ''DOD_API_ERROR''\<rparr>),
               log @ [full_url_of E request])))
   \<and> (upstream E log (full_url_of E request) = Raises (RequestError c s) \<longrightarrow>
       (\<exists>d. search_topics_endpoint E log request =
              (Inl (HTTPException 502 \<lparr>er_detail = d, er_code = ''DOD_API_ERROR''\<rparr>),
               log @ [full_url_of E request])))"
  by (auto simp: DoDSBIRClient_request_def request_except_def raise_for_status_def is_2xx_def
                 search_except_def download_except_def status_code_or_502_def
                 search_topics_endpoint_def search_topics_def timeout_is_request_error)

theorem gateway_failure_classification_witness:
  "isinstance_TimeoutException (RequestError ReadTimeout ''timed out'')
   \<and> isinstance_RequestError (RequestError ReadTimeout ''timed out'')
   \<and> upstream timeout_env [] (DOD_PDF_API_TEMPLATE ''1'') = Raises (RequestError ReadTimeout ''timed out'')
   \<and> is_TimeoutException ReadTimeout
   \<and> DoDSBIRClient_request timeout_env [] (DOD_PDF_API_TEMPLATE ''1'') =
       (Inl (DoDSBIRAPIError (''Request to '' @ DOD_PDF_API_TEMPLATE ''1'' @ '' timed out.'') None),
        [DOD_PDF_API_TEMPLATE ''1''])
   \<and> fst (search_topics_endpoint timeout_env [] example_request) =
       Inl (HTTPException 502
              \<lparr>er_detail = ''Request to '' @ full_url_of timeout_env example_request @ '' timed out.'',
               er_code = ''DOD_API_ERROR''\<rparr>)
   \<and> upstream unreachable_env [] (DOD_PDF_API_TEMPLATE ''1'') =
       Raises (RequestError ConnectError ''All connection attempts failed'')
   \<and> \<not> is_TimeoutException ConnectError
   \<and> DoDSBIRClient_request unreachable_env [] (DOD_PDF_API_TEMPLATE ''1'') =
       (Inl (DoDSBIRAPIError
               (''Network error requesting '' @ DOD_PDF_API_TEMPLATE ''1''
                @ '': All connection attempts failed'') None),
        [DOD_PDF_API_TEMPLATE ''1''])
   \<and> upstream unavailable_env [] (full_url_of unavailable_env example_request) =
       Responds (unavailable (full_url_of unavailable_env example_request))
   \<and> \<not> is_2xx (unavailable (full_url_of unavailable_env example_request))
   \<and> DoDSBIRClient_request unavailable_env [] (full_url_of unavailable_env example_request) =
       (Inl (DoDSBIRAPIError
               (''API request to '' @ full_url_of unavailable_env example_request
                @ '' failed with status '' @ str_int 503 @ ''. Response: Service Unavailable...'')
               (Some 503)),
        [full_url_of unavailable_env example_request])
   \<and> (503::int) \<noteq> 0
   \<and> search_except (DoDSBIRAPIError ''m'' (Some 503)) =
       HTTPException 503 \<lparr>er_detail = ''m'', er_code = ''DOD_API_ERROR''\<rparr>
   \<and> download_except (Exn (DoDSBIRAPIError ''m'' (Some 503))) =
       HTTPException 503 \<lparr>er_detail = ''m'', er_code = ''DOD_API_DOWNLOAD_ERROR''\<rparr>
   \<and> fst (search_topics_endpoint unavailable_env [] example_request) =
       Inl (HTTPException 503
              \<lparr>er_detail = ''API request to '' @ full_url_of unavailable_env example_request
                            @ '' failed with status '' @ str_int 503
                            @ ''. Response: Service Unavailable...'',
               er_code = ''DOD_API_ERROR''\<rparr>)"
proof -
  let ?u = "DOD_PDF_API_TEMPLATE ''1''"
  let ?t = "RequestError ReadTimeout ''timed out''"
  let ?s = "full_url_of unavailable_env example_request"
  have t0: "isinstance_TimeoutException ?t" by simp
  have t1: "upstream timeout_env [] ?u = Raises ?t" by (simp add: timeout_env_def)
  have t2: "is_TimeoutException ReadTimeout" by simp
  have t3: "upstream timeout_env [] (full_url_of timeout_env example_request) = Raises ?t"
    by (simp add: timeout_env_def)
  have n1: "upstream unreachable_env [] ?u =
              Raises (RequestError ConnectError ''All connection attempts failed'')"
    by (simp add: unreachable_env_def)
  have n2: "\<not> is_TimeoutException ConnectError" by simp
  have s1: "upstream unavailable_env [] ?s = Responds (unavailable ?s)"
    by (simp add: unavailable_env_def)
  have s2: "\<not> is_2xx (unavailable ?s)" by (rule not_2xx_unavailable)
  have s3: "(100::int) \<le> resp_status_code (unavailable ?s)" by (simp add: unavailable_def)
  have s4: "(503::int) \<noteq> 0" by simp
  note a = gateway_failure_classification
             [where e = ?t and E = timeout_env and log = "[]" and url = ?u and c = ReadTimeout
                and s = "''timed out''" and request = example_request]
  note b = gateway_failure_classification
             [where E = unreachable_env and log = "[]" and url = ?u and c = ConnectError
                and s = "''All connection attempts failed''"]
  note c = gateway_failure_classification
             [where E = unavailable_env and log = "[]" and url = ?s and r = "unavailable ?s"
                and m = "''m''" and status = 503 and request = example_request]
  from a t0 have a1: "isinstance_RequestError ?t" by blast
  from a t1 t2 have a2: "DoDSBIRClient_request timeout_env [] ?u =
       (Inl (DoDSBIRAPIError (''Request to '' @ ?u @ '' timed out.'') None), [?u])"
    by simp
  have a3: "fst (search_topics_endpoint timeout_env [] example_request) =
       Inl (HTTPException 502
              \<lparr>er_detail = ''Request to '' @ full_url_of timeout_env example_request @ '' timed out.'',
               er_code = ''DOD_API_ERROR''\<rparr>)"
    using a t3
    by (simp add: search_topics_endpoint_def search_topics_def DoDSBIRClient_request_def
                  request_except_def search_except_def status_code_or_502_def)
  from b n1 n2 have b1: "DoDSBIRClient_request unreachable_env [] ?u =
       (Inl (DoDSBIRAPIError (''Network error requesting '' @ ?u
                @ '': All connection attempts failed'') None), [?u])"
    by simp
  from c s1 s2 have c1: "DoDSBIRClient_request unavailable_env [] ?s =
       (Inl (DoDSBIRAPIError
               (''API request to '' @ ?s @ '' failed with status '' @ str_int 503
                @ ''. Response: Service Unavailable...'') (Some 503)), [?s])"
    by (simp add: unavailable_def)
  from c s4 have c2: "search_except (DoDSBIRAPIError ''m'' (Some 503)) =
       HTTPException 503 \<lparr>er_detail = ''m'', er_code = ''DOD_API_ERROR''\<rparr>"
    and c3: "download_except (Exn (DoDSBIRAPIError ''m'' (Some 503))) =
       HTTPException 503 \<lparr>er_detail = ''m'', er_code = ''DOD_API_DOWNLOAD_ERROR''\<rparr>"
    by blast+
  have c4: "fst (search_topics_endpoint unavailable_env [] example_request) =
       Inl (HTTPException 503
              \<lparr>er_detail = ''API request to '' @ ?s @ '' failed with status '' @ str_int 503
                            @ ''. Response: Service Unavailable...'',
               er_code = ''DOD_API_ERROR''\<rparr>)"
    using c s1 s2 s3 c1
    by (simp add: search_topics_endpoint_def search_topics_def search_except_def
                  status_code_or_502_def)
  from t0 a1 t1 t2 a2 a3 n1 n2 b1 s1 s2 c1 s4 c2 c3 c4 show ?thesis
    by blast
qed

section \<open>C7: \<open>has_more\<close> and the total\<close>

text \<open>
  C7 as stated fails: the total is whatever the upstream reports, and nothing compares it
  with the topics returned. For a valid request, an upstream that sends one topic and the
  total 0 makes \<open>search_topics\<close> return one topic with total 0.
\<close>

theorem total_below_topic_count:
  "valid_SearchRequest example_request
   \<and> search_topics short_total_env [] example_request =
       (Inr ([example_topic ''A'' ''1''], 0, False), [full_url_of short_total_env example_request])
   \<and> \<not> (int (length [example_topic ''A'' ''1'']) \<le> 0)"
  by (simp add: valid_SearchRequest_def search_topics_def DoDSBIRClient_request_def
                short_total_env_def raise_for_status_def example_json_def
                validate_example_raw_topic example_request_def)

text \<open>
  C7 as amended: whenever \<open>search_topics\<close> returns, \<open>has_more\<close> is
  \<open>(page + 1) * page_size < total\<close>, the total is the upstream's \<open>total\<close> (0 when
  the key is absent) and there are as many topics as the upstream's \<open>data\<close> has entries
  (none when the key is absent). So the total is at least the number of topics exactly
  when the upstream's own total is at least the number of entries it sent.
\<close>

theorem search_result_shape:
  assumes ok: "search_topics E log search_request = (Inr (topics, total_elements, has_more), log')"
  shows "has_more = ((sr_page search_request + 1) * sr_page_size search_request < total_elements)
       \<and> (\<exists>r result.
            upstream E log (full_url_of E search_request) = Responds r \<and> is_2xx r
            \<and> resp_json r = Some result
            \<and> total_elements = (case sb_total result of None \<Rightarrow> 0 | Some n \<Rightarrow> n)
            \<and> length topics = length (case sb_data result of None \<Rightarrow> [] | Some d \<Rightarrow> d))"
proof -
  obtain res l where rq: "DoDSBIRClient_request E log (full_url_of E search_request) = (res, l)"
    by (cases "DoDSBIRClient_request E log (full_url_of E search_request)")
  with ok obtain r where r: "res = Inr r"
    by (cases res) (auto simp: search_topics_def)
  from rq r have up: "upstream E log (full_url_of E search_request) = Responds r" "is_2xx r"
    using request_Inr by blast+
  from ok rq r obtain result where j: "resp_json r = Some result"
    by (cases "resp_json r") (auto simp: search_topics_def)
  let ?d = "case sb_data result of None \<Rightarrow> [] | Some d \<Rightarrow> d"
  from ok rq r j have v: "validate_topics ?d = Inr topics"
    and t: "total_elements = (case sb_total result of None \<Rightarrow> 0 | Some n \<Rightarrow> n)"
    and h: "has_more = ((sr_page search_request + 1) * sr_page_size search_request < total_elements)"
    by (auto simp: search_topics_def Let_def split: sum.splits)
  from validate_topics_length [OF v] up j t h show ?thesis
    by blast
qed

theorem search_result_shape_witness:
  "search_topics listing_env [] example_request =
     (Inr ([example_topic ''A'' ''1''], 25, True), [full_url_of listing_env example_request])
   \<and> True = ((sr_page example_request + 1) * sr_page_size example_request < 25)
   \<and> (\<exists>r result.
        upstream listing_env [] (full_url_of listing_env example_request) = Responds r \<and> is_2xx r
        \<and> resp_json r = Some result
        \<and> (25::int) = (case sb_total result of None \<Rightarrow> 0 | Some n \<Rightarrow> n)
        \<and> length [example_topic ''A'' ''1''] =
            length (case sb_data result of None \<Rightarrow> [] | Some d \<Rightarrow> d))"
proof -
  have ok: "search_topics listing_env [] example_request =
     (Inr ([example_topic ''A'' ''1''], 25, True), [full_url_of listing_env example_request])"
    by (simp add: search_topics_def DoDSBIRClient_request_def listing_env_def
                  raise_for_status_def example_json_def validate_example_raw_topic
                  example_request_def)
  from search_result_shape [OF ok] ok show ?thesis
    by blast
qed

section \<open>C9: missing keys in the search response\<close>




section \<open>C10: topics that share a code\<close>

text \<open>
  C10. When \<open>topic\<close> is the last of the topics returned by the search that has its
  code, the lookup table maps that code to the id of \<open>topic\<close>, however many earlier
  topics share the code. Every pair that the resolution keeps for that code carries that
  id, and a request for that code alone fetches the document of that id (when the id is
  not empty).
\<close>

theorem duplicate_codes_last_wins:
  assumes split: "all_found_topics = before @ topic # after"
    and last: "\<forall>t\<in>set after. t_topicCode t \<noteq> t_topicCode topic"
  shows "topic_map_of all_found_topics (t_topicCode topic) = Some (t_topicId topic)
       \<and> (\<forall>(code, topic_id)\<in>set (fst (resolve_loop (topic_map_of all_found_topics)
                                           selected_topics [] [])).
            code = t_topicCode topic \<longrightarrow> topic_id = t_topicId topic)
       \<and> (t_topicId topic \<noteq> [] \<longrightarrow>
            snd (download_with_topics E log all_found_topics [t_topicCode topic]) =
              log @ [DOD_PDF_API_TEMPLATE (t_topicId topic)])"
proof (intro conjI)
  let ?m = "topic_map_of all_found_topics"
  show m: "?m (t_topicCode topic) = Some (t_topicId topic)"
    using split last by (rule topic_map_of_last)
  show "\<forall>(code, topic_id)\<in>set (fst (resolve_loop ?m selected_topics [] [])).
          code = t_topicCode topic \<longrightarrow> topic_id = t_topicId topic"
    using m by (auto simp: resolve_loop_eq dest: resolved_pairs_in)
  show "t_topicId topic \<noteq> [] \<longrightarrow>
          snd (download_with_topics E log all_found_topics [t_topicCode topic]) =
            log @ [DOD_PDF_API_TEMPLATE (t_topicId topic)]"
  proof
    assume ne: "t_topicId topic \<noteq> []"
    with m have ps: "resolved_pairs ?m [t_topicCode topic] = [(t_topicCode topic, t_topicId topic)]"
      by (simp add: resolved_pairs_def)
    have "snd (download_pdf_content E log (t_topicId topic)) =
            log @ [DOD_PDF_API_TEMPLATE (t_topicId topic)]"
      by (rule download_pdf_content_log)
    then show "snd (download_with_topics E log all_found_topics [t_topicCode topic]) =
            log @ [DOD_PDF_API_TEMPLATE (t_topicId topic)]"
      by (auto simp: download_with_topics_eq download_found_eq ps Let_def
               split: prod.splits sum.splits)
  qed
qed

theorem duplicate_codes_last_wins_witness:
  "[example_topic ''A'' ''1'', example_topic ''A'' ''3'', example_topic ''B'' ''2''] =
     [example_topic ''A'' ''1''] @ example_topic ''A'' ''3'' # [example_topic ''B'' ''2'']
   \<and> t_topicCode (example_topic ''B'' ''2'') \<noteq> t_topicCode (example_topic ''A'' ''3'')
   \<and> topic_map_of [example_topic ''A'' ''1'', example_topic ''A'' ''3'', example_topic ''B'' ''2'']
        ''A'' = Some ''3''
   \<and> snd (download_with_topics partial_env []
             [example_topic ''A'' ''1'', example_topic ''A'' ''3'', example_topic ''B'' ''2'']
             [''A'']) = [DOD_PDF_API_TEMPLATE ''3'']"
proof -
  let ?ts = "[example_topic ''A'' ''1'', example_topic ''A'' ''3'', example_topic ''B'' ''2'']"
  have h1: "?ts = [example_topic ''A'' ''1''] @ example_topic ''A'' ''3'' # [example_topic ''B'' ''2'']"
    by simp
  have h2: "\<forall>t\<in>set [example_topic ''B'' ''2''].
              t_topicCode t \<noteq> t_topicCode (example_topic ''A'' ''3'')"
    by (simp add: example_topic_def)
  note w = duplicate_codes_last_wins [OF h1 h2, of "[]" partial_env "[]"]
  from w [THEN conjunct1] have c1: "topic_map_of ?ts ''A'' = Some ''3''"
    by (simp add: example_topic_def)
  from w [THEN conjunct2, THEN conjunct2]
  have c2: "snd (download_with_topics partial_env [] ?ts [''A'']) = [DOD_PDF_API_TEMPLATE ''3'']"
    by (simp add: example_topic_def)
  from h2 have h2': "t_topicCode (example_topic ''B'' ''2'') \<noteq> t_topicCode (example_topic ''A'' ''3'')"
    by simp
  from h1 h2' c1 c2 show ?thesis by blast
qed

section \<open>C8: the two download endpoints\<close>














end
